theory Spec2Isabelle
  imports Main "HOL-Library.Word" "HOL-Library.Sublist"
begin

section \<open>JavaScript strings\<close>

text \<open>
  A JavaScript string is a sequence of UTF-16 code units. String literals of the source
  are written \<open>js ''...''\<close>; all of them are ASCII.
\<close>

type_synonym jschar = "16 word"
type_synonym jsstring = "jschar list"

definition js :: "string \<Rightarrow> jsstring" where
  "js s = map of_char s"

text \<open>
  The code units matched by the regular-expression class \<^verbatim>\<open>\s\<close> and stripped by
  \<^verbatim>\<open>String.prototype.trim\<close>: ECMAScript's WhiteSpace and LineTerminator.
\<close>

definition isWhiteSpace :: "jschar \<Rightarrow> bool" where
  "isWhiteSpace c =
     (if 0x0009 \<le> c \<and> c \<le> 0x000D then True
      else if 0x2000 \<le> c \<and> c \<le> 0x200A then True
      else c \<in> {0x0020, 0x00A0, 0x1680, 0x2028, 0x2029, 0x202F, 0x205F, 0x3000, 0xFEFF})"

text \<open>\<^verbatim>\<open>s.trim()\<close>\<close>

definition trim :: "jsstring \<Rightarrow> jsstring" where
  "trim s = rev (dropWhile isWhiteSpace (rev (dropWhile isWhiteSpace s)))"

text \<open>
  \<^verbatim>\<open>s.replace(/\s\s+/g, ' ')\<close>: scanning from the left, every match of two or more
  whitespace code units (the greedy \<^verbatim>\<open>\s+\<close> takes the whole remaining run) is replaced
  by one space; every other code unit is copied.
\<close>

function replaceWhitespaceRuns :: "jsstring \<Rightarrow> jsstring" where
  "replaceWhitespaceRuns [] = []"
| "replaceWhitespaceRuns [c] = [c]"
| "replaceWhitespaceRuns (a # b # rest) =
     (if isWhiteSpace a \<and> isWhiteSpace b
      then 0x0020 # replaceWhitespaceRuns (dropWhile isWhiteSpace rest)
      else a # replaceWhitespaceRuns (b # rest))"
  by pat_completeness auto
termination
proof (relation "measure length")
  fix a b :: jschar and rest :: jsstring
  have "length (dropWhile isWhiteSpace rest) \<le> length rest"
    by (rule length_dropWhile_le)
  then show "(dropWhile isWhiteSpace rest, a # b # rest) \<in> measure length"
    by simp
qed simp_all

text \<open>\<^verbatim>\<open>s.endsWith(t)\<close> and \<^verbatim>\<open>s.includes(t)\<close>\<close>

definition endsWith :: "jsstring \<Rightarrow> jsstring \<Rightarrow> bool" where
  "endsWith s t = suffix t s"

definition includesStr :: "jsstring \<Rightarrow> jsstring \<Rightarrow> bool" where
  "includesStr s t = sublist t s"

text \<open>A string in a condition is truthy when it is not empty.\<close>

definition truthy :: "jsstring \<Rightarrow> bool" where
  "truthy s = (s \<noteq> [])"

text \<open>
  Whether a string holds two adjacent whitespace code units, that is, a run that
  \<^verbatim>\<open>/\s\s+/\<close> would match.
\<close>

fun hasWhitespaceRun :: "jsstring \<Rightarrow> bool" where
  "hasWhitespaceRun (a # b # rest) = ((isWhiteSpace a \<and> isWhiteSpace b) \<or> hasWhitespaceRun (b # rest))"
| "hasWhitespaceRun _ = False"


section \<open>Paths and the file system\<close>

text \<open>
  Paths are strings. \<^verbatim>\<open>path.join\<close> and \<^verbatim>\<open>path.resolve\<close> are applied by the plugin to
  the absolute working directory and to fixed relative segments only, where they put a
  separator between their arguments.
\<close>

definition path_join :: "jsstring \<Rightarrow> jsstring \<Rightarrow> jsstring" where
  "path_join a b = a @ js ''/'' @ b"

definition path_resolve :: "jsstring \<Rightarrow> jsstring \<Rightarrow> jsstring" where
  "path_resolve a b = a @ js ''/'' @ b"

text \<open>
  \<^verbatim>\<open>path.basename(p, ext)\<close>: the last segment of the path, without \<open>ext\<close> when the segment
  ends with it and is longer than it.
\<close>

definition path_basename :: "jsstring \<Rightarrow> jsstring \<Rightarrow> jsstring" where
  "path_basename p ext =
     (let base = rev (takeWhile (\<lambda>c. c \<noteq> 0x002F) (rev p))
      in if endsWith base ext \<and> base \<noteq> ext then take (length base - length ext) base else base)"

text \<open>
  The file system maps a path to a file with its content or to a directory with its
  listing, in the order \<^verbatim>\<open>readdirSync\<close> returns it. The plugin lists one directory only,
  the component directory, and never writes into it; the listings of the directories it
  writes to, and the parents that a recursive \<^verbatim>\<open>mkdirSync\<close> creates, are not tracked.
\<close>

datatype fsnode = File jsstring | Dir "jsstring list"

type_synonym filesystem = "jsstring \<rightharpoonup> fsnode"

datatype error = ENOENT jsstring | EISDIR jsstring | ENOTDIR jsstring | MinifyError jsstring

definition existsSync :: "filesystem \<Rightarrow> jsstring \<Rightarrow> bool" where
  "existsSync fs p = (fs p \<noteq> None)"

definition readFileSync :: "filesystem \<Rightarrow> jsstring \<Rightarrow> error + jsstring" where
  "readFileSync fs p =
     (case fs p of
        None \<Rightarrow> Inl (ENOENT p)
      | Some (Dir entries) \<Rightarrow> Inl (EISDIR p)
      | Some (File content) \<Rightarrow> Inr content)"

definition readdirSync :: "filesystem \<Rightarrow> jsstring \<Rightarrow> error + jsstring list" where
  "readdirSync fs p =
     (case fs p of
        None \<Rightarrow> Inl (ENOENT p)
      | Some (File content) \<Rightarrow> Inl (ENOTDIR p)
      | Some (Dir entries) \<Rightarrow> Inr entries)"

definition writeFileSync :: "filesystem \<Rightarrow> jsstring \<Rightarrow> jsstring \<Rightarrow> filesystem" where
  "writeFileSync fs p content = fs(p \<mapsto> File content)"

definition mkdirSync :: "filesystem \<Rightarrow> jsstring \<Rightarrow> filesystem" where
  "mkdirSync fs p = fs(p \<mapsto> Dir [])"


section \<open>The parsed document\<close>

text \<open>
  The tree that \<^verbatim>\<open>parse\<close> of node-html-parser returns: elements with their tag name,
  their raw attribute text and their child nodes, and text nodes with their raw text.
  Tag names are taken in lower case, as the selector engine compares them and as
  component files write them. The root node is represented by the list of its children.
\<close>

datatype node = HTMLElement jsstring jsstring "node list" | TextNode jsstring

fun tagName :: "node \<Rightarrow> jsstring" where
  "tagName (HTMLElement tag attrs children) = tag"
| "tagName (TextNode raw) = []"

fun isElement :: "node \<Rightarrow> bool" where
  "isElement (HTMLElement tag attrs children) = True"
| "isElement (TextNode raw) = False"

text \<open>The elements of a subtree in document order (a parent before its children).\<close>

fun elementsOf :: "node \<Rightarrow> node list" where
  "elementsOf (TextNode raw) = []"
| "elementsOf (HTMLElement tag attrs children) =
     HTMLElement tag attrs children # concat (map elementsOf children)"

text \<open>
  \<^verbatim>\<open>root.querySelector(tag)\<close> with a tag-name selector: the first descendant element in
  document order with that tag name, or null.
\<close>

definition querySelector :: "jsstring \<Rightarrow> node list \<Rightarrow> node option" where
  "querySelector tag root = find (\<lambda>e. tagName e = tag) (concat (map elementsOf root))"

definition voidTags :: "jsstring list" where
  "voidTags = map js [''area'', ''base'', ''br'', ''col'', ''embed'', ''hr'', ''img'', ''input'',
     ''link'', ''meta'', ''param'', ''source'', ''track'', ''wbr'']"

text \<open>
  \<^verbatim>\<open>node.toString()\<close>, the markup of a node, and \<^verbatim>\<open>element.innerHTML\<close>, the markup of
  its children.
\<close>

fun outerHTML :: "node \<Rightarrow> jsstring" where
  "outerHTML (TextNode raw) = raw"
| "outerHTML (HTMLElement tag attrs children) =
     js ''<'' @ tag @ (if attrs = [] then [] else js '' '' @ attrs) @
     (if tag \<in> set voidTags then js ''>''
      else js ''>'' @ concat (map outerHTML children) @ js ''</'' @ tag @ js ''>'')"

fun innerHTML :: "node \<Rightarrow> jsstring" where
  "innerHTML (HTMLElement tag attrs children) = concat (map outerHTML children)"
| "innerHTML (TextNode raw) = raw"

fun rawText :: "node \<Rightarrow> jsstring" where
  "rawText (TextNode raw) = raw"
| "rawText (HTMLElement tag attrs children) = concat (map rawText children)"


section \<open>External collaborators\<close>

text \<open>
  What the plugin takes from its environment: the working directory, the parser of
  node-html-parser and its entity decoder (\<^verbatim>\<open>element.text\<close> is the decoded raw text),
  terser's \<^verbatim>\<open>minify\<close> with its \<^verbatim>\<open>sourceMap\<close> option (\<open>None\<close> when it rejects the
  text) and the \<^verbatim>\<open>styles\<close> that clean-css returns.
\<close>

record env =
  cwd :: jsstring
  parse :: "jsstring \<Rightarrow> node list"
  decode :: "jsstring \<Rightarrow> jsstring"
  minify :: "jsstring \<Rightarrow> bool \<Rightarrow> jsstring option"
  cleanCSS :: "jsstring \<Rightarrow> jsstring"

definition text_of :: "env \<Rightarrow> node \<Rightarrow> jsstring" where
  "text_of E n = decode E (rawText n)"


section \<open>The aggregation state\<close>

record sfc_data =
  script :: jsstring
  style :: jsstring
  template :: jsstring

definition initial_data :: sfc_data where
  "initial_data = \<lparr>script = [], style = [], template = []\<rparr>"

text \<open>
  The state of one plugin instance and of what it acts on: the closure variables
  \<open>data\<close> and \<open>isDev\<close> (the latter exists in \<^verbatim>\<open>src/vite-plugin-sfc.js\<close> only), the file
  system, whether the watcher's change handler is registered, the number of full-reload
  messages sent and the errors logged to the console.
\<close>

record plugin =
  data :: sfc_data
  isDev :: bool
  disk :: filesystem
  watched :: "jsstring list"
  onChangeRegistered :: bool
  reloads :: nat
  console :: "error list"

definition componentsDir :: "env \<Rightarrow> jsstring" where
  "componentsDir E = path_resolve (cwd E) (js ''src/components'')"

definition publicDir :: "env \<Rightarrow> jsstring" where
  "publicDir E = path_resolve (cwd E) (js ''public'')"

definition devAssetsDir :: "env \<Rightarrow> jsstring" where
  "devAssetsDir E = path_join (publicDir E) (js ''assets'')"

definition srcIndex :: "env \<Rightarrow> jsstring" where
  "srcIndex E = path_resolve (cwd E) (js ''src/index.html'')"

definition publicIndex :: "env \<Rightarrow> jsstring" where
  "publicIndex E = path_join (publicDir E) (js ''index.html'')"

text \<open>
  \<^verbatim>\<open>files.forEach((file) => extractTags(path.join(componentsDir, file), data))\<close>: the
  first exception ends the loop, and what was appended before it stays in \<open>data\<close>.
\<close>

fun forEachExtract ::
  "(jsstring \<Rightarrow> sfc_data \<Rightarrow> error + sfc_data) \<Rightarrow> jsstring \<Rightarrow> jsstring list \<Rightarrow> sfc_data
    \<Rightarrow> sfc_data \<times> error option" where
  "forEachExtract extract dir [] d = (d, None)"
| "forEachExtract extract dir (file # files) d =
     (case extract (path_join dir file) d of
        Inl e \<Rightarrow> (d, Some e)
      | Inr d' \<Rightarrow> forEachExtract extract dir files d')"

definition htmlFiles :: "jsstring list \<Rightarrow> jsstring list" where
  "htmlFiles entries = filter (\<lambda>f. endsWith f (js ''.html'')) entries"


section \<open>\<^verbatim>\<open>src/vite-plugin-sfc.js\<close>\<close>

text \<open>
  The body of \<^verbatim>\<open>extractTags\<close> after the file is read and parsed: the three appends to
  \<open>data\<close>. Scripts are appended as they are, followed by a line feed.
\<close>

definition appendTags_sfc :: "env \<Rightarrow> jsstring \<Rightarrow> node list \<Rightarrow> sfc_data \<Rightarrow> sfc_data" where
  \<open>appendTags_sfc E filename root d =
     (let d1 = (case querySelector (js ''template'') root of
                  None \<Rightarrow> d
                | Some t \<Rightarrow> d\<lparr>template := template d @
                    js ''document.querySelectorAll("'' @ filename @
                    js ''").forEach(function(e){'' @
                    js ''e.innerHTML = `'' @
                    replaceWhitespaceRuns (innerHTML t) @
                    js ''`'' @
                    js ''})\<newline>''\<rparr>);
          d2 = (case querySelector (js ''script'') root of
                  None \<Rightarrow> d1
                | Some s \<Rightarrow> d1\<lparr>script := script d1 @ text_of E s @ js ''\<newline>''\<rparr>);
          d3 = (case querySelector (js ''style'') root of
                  None \<Rightarrow> d2
                | Some s \<Rightarrow> d2\<lparr>style := style d2 @ text_of E s\<rparr>)
      in d3)\<close>

definition extractTags_sfc :: "env \<Rightarrow> filesystem \<Rightarrow> jsstring \<Rightarrow> sfc_data \<Rightarrow> error + sfc_data" where
  "extractTags_sfc E fs filepath d =
     (case readFileSync fs filepath of
        Inl e \<Rightarrow> Inl e
      | Inr file \<Rightarrow>
          Inr (appendTags_sfc E (path_basename filepath (js ''.html'')) (parse E file) d))"

text \<open>
  \<^verbatim>\<open>writeDevFiles\<close>. The asynchronous function is run to its end at the call; a
  rejection is returned beside the file system as it is then.
\<close>

definition writeDevFiles_sfc ::
  "env \<Rightarrow> jsstring \<Rightarrow> sfc_data \<Rightarrow> bool \<Rightarrow> filesystem \<Rightarrow> filesystem \<times> error option" where
  "writeDevFiles_sfc E assetsDir d dev fs =
     (let fs1 = (if truthy (style d)
                 then writeFileSync fs (path_join assetsDir (js ''app.min.css'')) (cleanCSS E (style d))
                 else fs);
          combined = template d @ js '' '' @ script d
      in if dev then (writeFileSync fs1 (path_join assetsDir (js ''app.min.js'')) combined, None)
         else (case minify E combined True of
                 None \<Rightarrow> (fs1, Some (MinifyError combined))
               | Some code \<Rightarrow>
                   (writeFileSync fs1 (path_join assetsDir (js ''app.min.js'')) code, None)))"

definition buildStart_sfc :: "env \<Rightarrow> plugin \<Rightarrow> plugin \<times> error option" where
  "buildStart_sfc E s0 =
     (let s = s0\<lparr>isDev := False\<rparr>
      in if \<not> existsSync (disk s) (componentsDir E) then (s, None)
         else (case readdirSync (disk s) (componentsDir E) of
                 Inl e \<Rightarrow> (s, Some e)
               | Inr entries \<Rightarrow>
                   (let (d, err) = forEachExtract (extractTags_sfc E (disk s)) (componentsDir E)
                                     (htmlFiles entries) (data s)
                    in (s\<lparr>data := d\<rparr>, err))))"

text \<open>
  \<^verbatim>\<open>writeBundle(options)\<close>; \<open>dir\<close> is \<^verbatim>\<open>options.dir\<close>, \<open>None\<close> when it is undefined.
\<close>

definition outDir :: "jsstring option \<Rightarrow> jsstring" where
  "outDir dir = (case dir of None \<Rightarrow> js ''dist'' | Some p \<Rightarrow> if truthy p then p else js ''dist'')"

definition writeBundle_sfc :: "env \<Rightarrow> jsstring option \<Rightarrow> plugin \<Rightarrow> plugin \<times> error option" where
  "writeBundle_sfc E dir s =
     (let assetsDir = path_join (outDir dir) (js ''assets'');
          fs0 = (if \<not> existsSync (disk s) assetsDir then mkdirSync (disk s) assetsDir else disk s);
          fs1 = (if truthy (style (data s))
                 then writeFileSync fs0 (path_join assetsDir (js ''app.min.css''))
                        (cleanCSS E (style (data s)))
                 else fs0);
          combined = template (data s) @ js '' '' @ script (data s)
      in case minify E combined True of
           None \<Rightarrow> (s\<lparr>disk := fs1\<rparr>, Some (MinifyError combined))
         | Some code \<Rightarrow>
             (s\<lparr>disk := writeFileSync fs1 (path_join assetsDir (js ''app.min.js'')) code\<rparr>, None))"

text \<open>
  The callback of \<^verbatim>\<open>writeDevFiles(...).catch(...)\<close>: a rejection is logged and not
  raised.
\<close>

definition logRejection :: "plugin \<Rightarrow> filesystem \<times> error option \<Rightarrow> plugin" where
  "logRejection s r =
     (case snd r of
        None \<Rightarrow> s\<lparr>disk := fst r\<rparr>
      | Some e \<Rightarrow> s\<lparr>disk := fst r, console := console s @ [e]\<rparr>)"

text \<open>The handler that \<^verbatim>\<open>configureServer\<close> registers for the watcher's change event.\<close>

definition onChange_sfc :: "env \<Rightarrow> jsstring \<Rightarrow> plugin \<Rightarrow> plugin \<times> error option" where
  "onChange_sfc E file s0 =
     (if includesStr file (js ''/components/'') \<and> endsWith file (js ''.html'')
      then (let s = s0\<lparr>data := initial_data\<rparr>
            in case readdirSync (disk s) (componentsDir E) of
                 Inl e \<Rightarrow> (s, Some e)
               | Inr entries \<Rightarrow>
                   (case forEachExtract (extractTags_sfc E (disk s)) (componentsDir E)
                           (htmlFiles entries) (data s) of
                      (d, Some e) \<Rightarrow> (s\<lparr>data := d\<rparr>, Some e)
                    | (d, None) \<Rightarrow>
                        (let s1 = s\<lparr>data := d\<rparr>;
                             s2 = logRejection s1
                                    (writeDevFiles_sfc E (devAssetsDir E) (data s1) (isDev s1) (disk s1))
                         in (s2\<lparr>reloads := reloads s2 + 1\<rparr>, None))))
      else (s0, None))"




section \<open>\<^verbatim>\<open>src/unnamed/part_001\<close>\<close>

text \<open>
  The body of \<^verbatim>\<open>extractTags\<close> after the file is read and parsed. The trimmed script,
  when it is not empty, is wrapped in a loop over the elements with the component's tag
  name, whose parameter has the component's name.
\<close>

definition appendTags_p001 :: "env \<Rightarrow> jsstring \<Rightarrow> node list \<Rightarrow> sfc_data \<Rightarrow> sfc_data" where
  \<open>appendTags_p001 E filename root d =
     (let d1 = (case querySelector (js ''template'') root of
                  None \<Rightarrow> d
                | Some t \<Rightarrow>
                    (let templateHTML = replaceWhitespaceRuns (innerHTML t)
                     in d\<lparr>template := template d @
                          js ''document.querySelectorAll("'' @ filename @
                          js ''").forEach(function(e){'' @
                          js ''e.innerHTML = `'' @
                          templateHTML @
                          js ''`'' @
                          js ''})\<newline>''\<rparr>));
          d2 = (case querySelector (js ''script'') root of
                  None \<Rightarrow> d1
                | Some s \<Rightarrow>
                    (let scriptContent = trim (text_of E s)
                     in if truthy scriptContent
                        then d1\<lparr>script := script d1 @
                               js ''document.querySelectorAll("'' @ filename @
                               js ''").forEach(function('' @ filename @
                               js ''){'' @
                               scriptContent @
                               js ''})\<newline>''\<rparr>
                        else d1));
          d3 = (case querySelector (js ''style'') root of
                  None \<Rightarrow> d2
                | Some s \<Rightarrow> d2\<lparr>style := style d2 @ text_of E s\<rparr>)
      in d3)\<close>

definition extractTags_p001 :: "env \<Rightarrow> filesystem \<Rightarrow> jsstring \<Rightarrow> sfc_data \<Rightarrow> error + sfc_data" where
  "extractTags_p001 E fs filepath d =
     (case readFileSync fs filepath of
        Inl e \<Rightarrow> Inl e
      | Inr file \<Rightarrow>
          Inr (appendTags_p001 E (path_basename filepath (js ''.html'')) (parse E file) d))"

definition writeDevFiles_p001 ::
  "env \<Rightarrow> jsstring \<Rightarrow> sfc_data \<Rightarrow> filesystem \<Rightarrow> filesystem \<times> error option" where
  "writeDevFiles_p001 E assetsDir d fs =
     (let fs1 = (if truthy (style d)
                 then writeFileSync fs (path_join assetsDir (js ''app.min.css'')) (cleanCSS E (style d))
                 else fs);
          combined = template d @ js '' '' @ script d
      in case minify E combined False of
           None \<Rightarrow> (fs1, Some (MinifyError combined))
         | Some code \<Rightarrow>
             (writeFileSync fs1 (path_join assetsDir (js ''app.min.js'')) code, None))"

definition buildStart_p001 :: "env \<Rightarrow> plugin \<Rightarrow> plugin \<times> error option" where
  "buildStart_p001 E s =
     (if \<not> existsSync (disk s) (componentsDir E) then (s, None)
      else (case readdirSync (disk s) (componentsDir E) of
              Inl e \<Rightarrow> (s, Some e)
            | Inr entries \<Rightarrow>
                (let (d, err) = forEachExtract (extractTags_p001 E (disk s)) (componentsDir E)
                                  (htmlFiles entries) (data s)
                 in (s\<lparr>data := d\<rparr>, err))))"

definition writeBundle_p001 :: "env \<Rightarrow> jsstring option \<Rightarrow> plugin \<Rightarrow> plugin \<times> error option" where
  "writeBundle_p001 E dir s =
     (let assetsDir = path_join (outDir dir) (js ''assets'');
          fs0 = (if \<not> existsSync (disk s) assetsDir then mkdirSync (disk s) assetsDir else disk s);
          fs1 = (if truthy (style (data s))
                 then writeFileSync fs0 (path_join assetsDir (js ''app.min.css''))
                        (cleanCSS E (style (data s)))
                 else fs0);
          combined = template (data s) @ js '' '' @ script (data s)
      in case minify E combined False of
           None \<Rightarrow> (s\<lparr>disk := fs1\<rparr>, Some (MinifyError combined))
         | Some code \<Rightarrow>
             (s\<lparr>disk := writeFileSync fs1 (path_join assetsDir (js ''app.min.js'')) code\<rparr>, None))"

definition onChange_p001 :: "env \<Rightarrow> jsstring \<Rightarrow> plugin \<Rightarrow> plugin \<times> error option" where
  "onChange_p001 E file s0 =
     (if includesStr file (js ''/components/'') \<and> endsWith file (js ''.html'')
      then (let s = s0\<lparr>data := initial_data\<rparr>
            in case readdirSync (disk s) (componentsDir E) of
                 Inl e \<Rightarrow> (s, Some e)
               | Inr entries \<Rightarrow>
                   (case forEachExtract (extractTags_p001 E (disk s)) (componentsDir E)
                           (htmlFiles entries) (data s) of
                      (d, Some e) \<Rightarrow> (s\<lparr>data := d\<rparr>, Some e)
                    | (d, None) \<Rightarrow>
                        (let s1 = s\<lparr>data := d\<rparr>;
                             s2 = logRejection s1
                                    (writeDevFiles_p001 E (devAssetsDir E) (data s1) (disk s1))
                         in (s2\<lparr>reloads := reloads s2 + 1\<rparr>, None))))
      else (s0, None))"



section \<open>Events\<close>



text \<open>
  \<^verbatim>\<open>sfcPlugin()\<close>: a new plugin instance, with empty aggregates, on a given file
  system.
\<close>

definition sfcPlugin :: "filesystem \<Rightarrow> plugin" where
  "sfcPlugin fs = \<lparr>data = initial_data, isDev = True, disk = fs, watched = [],
     onChangeRegistered = False, reloads = 0, console = []\<rparr>"


section \<open>A sample project\<close>

text \<open>
  One component, \<^verbatim>\<open>card.html\<close>, in the component directory of a project at \<^verbatim>\<open>/app\<close>,
  beside a file that is not a component, and a second component file, \<^verbatim>\<open>blank.html\<close>,
  whose script holds whitespace only. The parser is taken at the sample files, where it
  yields their elements; the decoder and the minifiers return their input.
\<close>

definition card_html :: jsstring where
  "card_html =
     js ''<template>\<newline>  <div>hi</div>\<newline></template><script> card.x = 1 </script><style>p{}</style>''"

definition card_template :: node where
  "card_template = HTMLElement (js ''template'') []
     [TextNode (js ''\<newline>  ''), HTMLElement (js ''div'') [] [TextNode (js ''hi'')],
      TextNode (js ''\<newline>'')]"

definition card_script :: node where
  "card_script = HTMLElement (js ''script'') [] [TextNode (js '' card.x = 1 '')]"

definition card_style :: node where
  "card_style = HTMLElement (js ''style'') [] [TextNode (js ''p{}'')]"

definition card_dom :: "node list" where
  "card_dom = [card_template, card_script, card_style]"

definition card_path :: jsstring where
  "card_path = js ''/app/src/components/card.html''"

definition blank_html :: jsstring where
  "blank_html = js ''<script>  </script>''"

definition blank_script :: node where
  "blank_script = HTMLElement (js ''script'') [] [TextNode (js ''  '')]"

definition blank_path :: jsstring where
  "blank_path = js ''/app/src/components/blank.html''"

definition blank_disk :: filesystem where
  "blank_disk = [js ''/app/src/components'' \<mapsto> Dir [js ''blank.html''],
                 js ''/app/src/components/blank.html'' \<mapsto> File blank_html]"

text \<open>
  A third component file, \<^verbatim>\<open>nested.html\<close>, has a style element and, after it, a template
  that holds a second style element.
\<close>

definition nested_html :: jsstring where
  "nested_html = js ''<style>a{}</style><template><style>b{}</style></template>''"

definition nested_dom :: "node list" where
  "nested_dom =
     [HTMLElement (js ''style'') [] [TextNode (js ''a{}'')],
      HTMLElement (js ''template'') [] [HTMLElement (js ''style'') [] [TextNode (js ''b{}'')]]]"



definition demo_env :: env where
  "demo_env = \<lparr>cwd = js ''/app'',
     parse = (\<lambda>file. if file = card_html then card_dom
                     else if file = blank_html then [blank_script]
                     else if file = nested_html then nested_dom else []),
     decode = (\<lambda>s. s),
     minify = (\<lambda>s sourceMap. Some s),
     cleanCSS = (\<lambda>s. s)\<rparr>"

definition demo_disk :: filesystem where
  "demo_disk = [js ''/app/src/components'' \<mapsto> Dir [js ''card.html'', js ''notes.txt''],
                js ''/app/src/components/card.html'' \<mapsto> File card_html]"




text \<open>The statements generated for \<^verbatim>\<open>card.html\<close>.\<close>

definition card_template_statement :: jsstring where
  \<open>card_template_statement =
     js ''document.querySelectorAll("card").forEach(function(e){e.innerHTML = ` <div>hi</div>\<newline>`})\<newline>''\<close>

definition card_script_statement :: jsstring where
  \<open>card_script_statement =
     js ''document.querySelectorAll("card").forEach(function(card){card.x = 1})\<newline>''\<close>


section \<open>Whitespace runs\<close>

lemma replaceWhitespaceRuns_Cons_other:
  "\<not> isWhiteSpace a \<Longrightarrow> replaceWhitespaceRuns (a # xs) = a # replaceWhitespaceRuns xs"
  by (cases xs) auto

lemma replaceWhitespaceRuns_after_run:
  "replaceWhitespaceRuns (dropWhile isWhiteSpace xs) = [] \<or>
   \<not> isWhiteSpace (hd (replaceWhitespaceRuns (dropWhile isWhiteSpace xs)))"
proof -
  define zs where "zs = dropWhile isWhiteSpace xs"
  have "zs = [] \<or> \<not> isWhiteSpace (hd zs)"
    unfolding zs_def using hd_dropWhile[of isWhiteSpace xs] by blast
  then have "replaceWhitespaceRuns zs = [] \<or> \<not> isWhiteSpace (hd (replaceWhitespaceRuns zs))"
    by (cases zs) (auto simp: replaceWhitespaceRuns_Cons_other)
  then show ?thesis by (simp only: zs_def)
qed

lemma hasWhitespaceRun_Cons:
  "hasWhitespaceRun (a # xs) =
     ((xs \<noteq> [] \<and> isWhiteSpace a \<and> isWhiteSpace (hd xs)) \<or> hasWhitespaceRun xs)"
  by (cases xs) auto

lemma isWhiteSpace_hd_replaceWhitespaceRuns:
  "xs \<noteq> [] \<Longrightarrow> isWhiteSpace (hd (replaceWhitespaceRuns xs)) \<Longrightarrow> isWhiteSpace (hd xs)"
  by (induction xs rule: replaceWhitespaceRuns.induct) (auto split: if_splits)

lemma no_run_after_replace: "\<not> hasWhitespaceRun (replaceWhitespaceRuns xs)"
proof (induction xs rule: replaceWhitespaceRuns.induct)
  case 1
  show ?case by simp
next
  case (2 c)
  show ?case by simp
next
  case (3 a b rest)
  show ?case
  proof (cases "isWhiteSpace a \<and> isWhiteSpace b")
    case True
    with 3 replaceWhitespaceRuns_after_run[of rest] show ?thesis
      by (auto simp: hasWhitespaceRun_Cons)
  next
    case False
    then have eq: "replaceWhitespaceRuns (a # b # rest) = a # replaceWhitespaceRuns (b # rest)"
      by auto
    from False 3 have ih: "\<not> hasWhitespaceRun (replaceWhitespaceRuns (b # rest))"
      by simp
    have "\<not> (isWhiteSpace a \<and> isWhiteSpace (hd (replaceWhitespaceRuns (b # rest))))"
      using False isWhiteSpace_hd_replaceWhitespaceRuns[of "b # rest"] by auto
    with ih show ?thesis
      unfolding eq hasWhitespaceRun_Cons by blast
  qed
qed

lemma filter_dropWhile_other:
  "filter (\<lambda>c. \<not> P c) (dropWhile P xs) = filter (\<lambda>c. \<not> P c) xs"
  by (induction xs) auto

lemma replaceWhitespaceRuns_keeps_others:
  "filter (\<lambda>c. \<not> isWhiteSpace c) (replaceWhitespaceRuns xs) = filter (\<lambda>c. \<not> isWhiteSpace c) xs"
proof (induction xs rule: replaceWhitespaceRuns.induct)
  case (3 a b rest)
  have sp: "isWhiteSpace 0x0020"
    by (simp add: isWhiteSpace_def)
  show ?case
  proof (cases "isWhiteSpace a \<and> isWhiteSpace b")
    case True
    with 3 sp show ?thesis
      by (simp add: filter_dropWhile_other)
  next
    case False
    with 3 show ?thesis
      by auto
  qed
qed simp_all


section \<open>Trimming\<close>

lemma trim_decomp:
  "s = takeWhile isWhiteSpace s @ trim s @ rev (takeWhile isWhiteSpace (rev (dropWhile isWhiteSpace s)))"
proof -
  define m where "m = dropWhile isWhiteSpace s"
  have "rev (dropWhile isWhiteSpace (rev m)) @ rev (takeWhile isWhiteSpace (rev m)) =
          rev (takeWhile isWhiteSpace (rev m) @ dropWhile isWhiteSpace (rev m))"
    by (simp only: rev_append)
  also have "\<dots> = m"
    by (simp only: takeWhile_dropWhile_id rev_rev_ident)
  finally have "m = trim s @ rev (takeWhile isWhiteSpace (rev m))"
    by (simp only: trim_def m_def)
  moreover have "s = takeWhile isWhiteSpace s @ m"
    by (simp add: m_def)
  ultimately show ?thesis
    unfolding m_def by simp
qed

lemma trim_last: "trim s \<noteq> [] \<Longrightarrow> \<not> isWhiteSpace (last (trim s))"
  unfolding trim_def using hd_dropWhile[of isWhiteSpace "rev (dropWhile isWhiteSpace s)"]
  by (simp add: last_rev)

lemma trim_hd: assumes "trim s \<noteq> []" shows "\<not> isWhiteSpace (hd (trim s))"
proof -
  define m where "m = dropWhile isWhiteSpace s"
  have m: "m = trim s @ rev (takeWhile isWhiteSpace (rev m))"
    using trim_decomp[of s] unfolding m_def
    by (metis append_eq_conv_conj same_append_eq takeWhile_dropWhile_id)
  with assms have "hd m = hd (trim s)" by (metis hd_append2)
  moreover from m assms have "m \<noteq> []" by auto
  then have "\<not> isWhiteSpace (hd m)" unfolding m_def by (rule hd_dropWhile)
  ultimately show ?thesis by simp
qed


section \<open>The fields that \<^verbatim>\<open>extractTags\<close> appends to\<close>

lemma js_append: "js a @ js b = js (a @ b)"
  by (simp add: js_def)

lemma script_appendTags_sfc:
  "script (appendTags_sfc E n root d) =
     script d @ (case querySelector (js ''script'') root of
                   None \<Rightarrow> []
                 | Some s \<Rightarrow> text_of E s @ js ''\<newline>'')"
  by (simp add: appendTags_sfc_def Let_def split: option.split)

lemma script_appendTags_p001:
  \<open>script (appendTags_p001 E n root d) =
     script d @ (case querySelector (js ''script'') root of
                   None \<Rightarrow> []
                 | Some s \<Rightarrow>
                     if trim (text_of E s) = [] then []
                     else js ''document.querySelectorAll("'' @ n @ js ''").forEach(function('' @ n @
                          js ''){'' @ trim (text_of E s) @ js ''})\<newline>'')\<close>
  by (simp add: appendTags_p001_def Let_def truthy_def split: option.split)

lemma template_appendTags_same:
  "template (appendTags_sfc E n root d) = template (appendTags_p001 E n root d')" if "template d = template d'"
  using that by (simp add: appendTags_sfc_def appendTags_p001_def Let_def split: option.split)

lemma forEach_same:
  "template d = template d' \<Longrightarrow>
   template (fst (forEachExtract (extractTags_sfc E fs) dir files d)) =
   template (fst (forEachExtract (extractTags_p001 E fs) dir files d')) \<and>
   snd (forEachExtract (extractTags_sfc E fs) dir files d) =
   snd (forEachExtract (extractTags_p001 E fs) dir files d')"
proof (induction files arbitrary: d d')
  case Nil
  then show ?case by simp
next
  case (Cons f files)
  show ?case
  proof (cases "readFileSync fs (path_join dir f)")
    case (Inl e)
    then show ?thesis using Cons.prems by (simp add: extractTags_sfc_def extractTags_p001_def)
  next
    case (Inr content)
    then show ?thesis
      using Cons.IH[OF template_appendTags_same[OF Cons.prems]]
      by (simp add: extractTags_sfc_def extractTags_p001_def)
  qed
qed


section \<open>The sample project, evaluated\<close>

lemma read_card: "readFileSync demo_disk card_path = Inr card_html"
  by (simp add: readFileSync_def demo_disk_def card_path_def js_def)

lemma card_name: "path_basename card_path (js ''.html'') = js ''card''"
  by (simp add: path_basename_def card_path_def js_def endsWith_def suffix_to_prefix)

lemma parse_card: "parse demo_env card_html = card_dom"
  by (simp add: demo_env_def)

lemma parse_blank: "parse demo_env blank_html = [blank_script]"
  by (simp add: demo_env_def blank_html_def card_html_def js_def)

lemma card_first_template: "querySelector (js ''template'') (parse demo_env card_html) = Some card_template"
  by (simp add: parse_card querySelector_def card_dom_def card_template_def card_script_def
      card_style_def js_def)

lemma card_first_script: "querySelector (js ''script'') (parse demo_env card_html) = Some card_script"
  by (simp add: parse_card querySelector_def card_dom_def card_template_def card_script_def
      card_style_def js_def)

lemma card_first_style: "querySelector (js ''style'') (parse demo_env card_html) = Some card_style"
  by (simp add: parse_card querySelector_def card_dom_def card_template_def card_script_def
      card_style_def js_def)

lemma read_blank: "readFileSync blank_disk blank_path = Inr blank_html"
  by (simp add: readFileSync_def blank_disk_def blank_path_def js_def)

lemma blank_first_template: "querySelector (js ''template'') (parse demo_env blank_html) = None"
  by (simp add: parse_blank querySelector_def blank_script_def js_def)

lemma blank_first_script: "querySelector (js ''script'') (parse demo_env blank_html) = Some blank_script"
  by (simp add: parse_blank querySelector_def blank_script_def js_def)

lemma blank_first_style: "querySelector (js ''style'') (parse demo_env blank_html) = None"
  by (simp add: parse_blank querySelector_def blank_script_def js_def)

lemma text_of_demo: "text_of demo_env n = rawText n"
  by (simp add: text_of_def demo_env_def)

lemma card_markup: "replaceWhitespaceRuns (innerHTML card_template) = js '' <div>hi</div>\<newline>''"
  by (simp add: card_template_def js_def isWhiteSpace_def voidTags_def)


lemma card_text: "text_of demo_env card_script = js '' card.x = 1 ''"
  by (simp add: text_of_demo card_script_def)

lemma card_trimmed: "trim (js '' card.x = 1 '') = js ''card.x = 1''"
  by (simp add: trim_def js_def isWhiteSpace_def)

lemma blank_text: "text_of demo_env blank_script = js ''  ''"
  by (simp add: text_of_demo blank_script_def)

lemma blank_trimmed: "trim (js ''  '') = []"
  by (simp add: trim_def js_def isWhiteSpace_def)

lemma card_script_fragment:
  \<open>script initial_data @ js ''document.querySelectorAll("'' @ js ''card'' @
     js ''").forEach(function('' @ js ''card'' @ js ''){'' @ js ''card.x = 1'' @ js ''})\<newline>'' =
   js ''document.querySelectorAll("card").forEach(function(card){card.x = 1})\<newline>''\<close>
  by (simp add: js_def initial_data_def)

lemma card_script_sfc: "script initial_data @ js '' card.x = 1 '' @ js ''\<newline>'' = js '' card.x = 1 \<newline>''"
  by (simp add: js_def initial_data_def)

lemma card_script_nonempty: "js ''card.x = 1'' \<noteq> []"
  by (simp add: js_def)


section \<open>Template injection\<close>

text \<open>
  C2. When a component file has a \<^verbatim>\<open>template\<close> element, both variants of
  \<^verbatim>\<open>extractTags\<close> append to the template aggregate the statement
  \<^verbatim>\<open>document.querySelectorAll("NAME").forEach(function(e){e.innerHTML = `MARKUP`})\<close>
  and a line feed, where \<open>MARKUP\<close> is the inner markup of the first \<^verbatim>\<open>template\<close> element
  with every run of two or more whitespace code units replaced by one space: the injected
  markup holds no two adjacent whitespace code units, and its other code units are those
  of the template, in order.
\<close>

theorem template_markup_without_whitespace_runs:
  assumes "readFileSync fs filepath = Inr file"
    and "querySelector (js ''template'') (parse E file) = Some t"
  shows \<open>map_sum id template (extractTags_sfc E fs filepath d) =
           Inr (template d @ js ''document.querySelectorAll("'' @ path_basename filepath (js ''.html'') @
                js ''").forEach(function(e){e.innerHTML = `'' @
                replaceWhitespaceRuns (innerHTML t) @ js ''`})\<newline>'') \<and>
         map_sum id template (extractTags_p001 E fs filepath d) =
           Inr (template d @ js ''document.querySelectorAll("'' @ path_basename filepath (js ''.html'') @
                js ''").forEach(function(e){e.innerHTML = `'' @
                replaceWhitespaceRuns (innerHTML t) @ js ''`})\<newline>'') \<and>
         \<not> hasWhitespaceRun (replaceWhitespaceRuns (innerHTML t)) \<and>
         filter (\<lambda>c. \<not> isWhiteSpace c) (replaceWhitespaceRuns (innerHTML t)) =
           filter (\<lambda>c. \<not> isWhiteSpace c) (innerHTML t)\<close>
proof -
  have lit: \<open>js ''").forEach(function(e){'' @ js ''e.innerHTML = `'' @ m @ js ''`'' @ js ''})\<newline>'' =
             js ''").forEach(function(e){e.innerHTML = `'' @ m @ js ''`})\<newline>''\<close> for m
    by (simp add: js_def)
  have \<open>template (appendTags_sfc E n (parse E file) d) =
          template d @ js ''document.querySelectorAll("'' @ n @
          js ''").forEach(function(e){e.innerHTML = `'' @
          replaceWhitespaceRuns (innerHTML t) @ js ''`})\<newline>''\<close> for n
    using assms(2) by (simp add: appendTags_sfc_def Let_def lit split: option.split)
  moreover have \<open>template (appendTags_p001 E n (parse E file) d) =
          template d @ js ''document.querySelectorAll("'' @ n @
          js ''").forEach(function(e){e.innerHTML = `'' @
          replaceWhitespaceRuns (innerHTML t) @ js ''`})\<newline>''\<close> for n
    using assms(2) by (simp add: appendTags_p001_def Let_def lit split: option.split)
  ultimately show ?thesis
    using assms(1)
    by (simp add: extractTags_sfc_def extractTags_p001_def no_run_after_replace
        replaceWhitespaceRuns_keeps_others)
qed

lemma card_template_fragment:
  \<open>template initial_data @ js ''document.querySelectorAll("'' @ js ''card'' @
     js ''").forEach(function(e){e.innerHTML = `'' @ js '' <div>hi</div>\<newline>'' @ js ''`})\<newline>'' =
   js ''document.querySelectorAll("card").forEach(function(e){e.innerHTML = ` <div>hi</div>\<newline>`})\<newline>''\<close>
  by (simp add: js_def initial_data_def)

theorem template_markup_without_whitespace_runs_witness:
  \<open>readFileSync demo_disk card_path = Inr card_html \<and>
   querySelector (js ''template'') (parse demo_env card_html) = Some card_template \<and>
   map_sum id template (extractTags_sfc demo_env demo_disk card_path initial_data) =
     Inr (js ''document.querySelectorAll("card").forEach(function(e){e.innerHTML = ` <div>hi</div>\<newline>`})\<newline>'') \<and>
   map_sum id template (extractTags_p001 demo_env demo_disk card_path initial_data) =
     Inr (js ''document.querySelectorAll("card").forEach(function(e){e.innerHTML = ` <div>hi</div>\<newline>`})\<newline>'') \<and>
   \<not> hasWhitespaceRun (js '' <div>hi</div>\<newline>'')\<close>
proof -
  note t = template_markup_without_whitespace_runs [OF read_card card_first_template, of initial_data]
  from t have "\<not> hasWhitespaceRun (js '' <div>hi</div>\<newline>'')"
    unfolding card_markup by blast
  moreover from t have
    \<open>map_sum id template (extractTags_sfc demo_env demo_disk card_path initial_data) =
     Inr (js ''document.querySelectorAll("card").forEach(function(e){e.innerHTML = ` <div>hi</div>\<newline>`})\<newline>'')\<close>
    unfolding card_markup card_name card_template_fragment by blast
  moreover from t have
    \<open>map_sum id template (extractTags_p001 demo_env demo_disk card_path initial_data) =
     Inr (js ''document.querySelectorAll("card").forEach(function(e){e.innerHTML = ` <div>hi</div>\<newline>`})\<newline>'')\<close>
    unfolding card_markup card_name card_template_fragment by blast
  ultimately show ?thesis
    using read_card card_first_template by blast
qed

text \<open>
  C9. For every component file and every aggregation state, the two variants of
  \<^verbatim>\<open>extractTags\<close> leave the same template aggregate (and fail on the same files); so do
  their loops over a directory listing.
\<close>

theorem template_fragment_same_in_both_variants:
  "map_sum id template (extractTags_sfc E fs filepath d) =
     map_sum id template (extractTags_p001 E fs filepath d) \<and>
   template (fst (forEachExtract (extractTags_sfc E fs) dir files d)) =
     template (fst (forEachExtract (extractTags_p001 E fs) dir files d)) \<and>
   snd (forEachExtract (extractTags_sfc E fs) dir files d) =
     snd (forEachExtract (extractTags_p001 E fs) dir files d)"
proof -
  have "map_sum id template (extractTags_sfc E fs filepath d) =
     map_sum id template (extractTags_p001 E fs filepath d)"
    by (cases "readFileSync fs filepath")
       (simp_all add: extractTags_sfc_def extractTags_p001_def template_appendTags_same)
  then show ?thesis
    using forEach_same[of d d E fs dir files] by simp
qed


section \<open>Script fragments\<close>

text \<open>
  C1, as amended. In \<^verbatim>\<open>src/unnamed/part_001\<close> a component whose script is not empty after
  trimming appends the statement
  \<^verbatim>\<open>document.querySelectorAll("NAME").forEach(function(NAME){BODY})\<close> and a line feed
  to the script aggregate, \<open>BODY\<close> the trimmed script; a component with no script element
  or with an empty trimmed script appends nothing. In \<^verbatim>\<open>src/vite-plugin-sfc.js\<close> every
  component with a script element appends the text of the element as it is, followed by
  a line feed: no elements are selected, no variable is bound, and the line feed is
  appended also when the trimmed text is empty.
\<close>

theorem script_fragment_of_each_variant:
  assumes "readFileSync fs filepath = Inr file"
  shows \<open>map_sum id script (extractTags_p001 E fs filepath d) =
           Inr (script d @
             (case querySelector (js ''script'') (parse E file) of
                None \<Rightarrow> []
              | Some s \<Rightarrow>
                  if trim (text_of E s) = [] then []
                  else js ''document.querySelectorAll("'' @ path_basename filepath (js ''.html'') @
                       js ''").forEach(function('' @ path_basename filepath (js ''.html'') @
                       js ''){'' @ trim (text_of E s) @ js ''})\<newline>'')) \<and>
         map_sum id script (extractTags_sfc E fs filepath d) =
           Inr (script d @
             (case querySelector (js ''script'') (parse E file) of
                None \<Rightarrow> []
              | Some s \<Rightarrow> text_of E s @ js ''\<newline>''))\<close>
  using assms
  by (simp add: extractTags_p001_def extractTags_sfc_def script_appendTags_p001 script_appendTags_sfc)

theorem script_fragment_of_each_variant_witness:
  \<open>readFileSync demo_disk card_path = Inr card_html \<and>
   map_sum id script (extractTags_p001 demo_env demo_disk card_path initial_data) =
     Inr (js ''document.querySelectorAll("card").forEach(function(card){card.x = 1})\<newline>'') \<and>
   map_sum id script (extractTags_sfc demo_env demo_disk card_path initial_data) =
     Inr (js '' card.x = 1 \<newline>'')\<close>
proof -
  note t = script_fragment_of_each_variant [OF read_card, of demo_env initial_data]
  from t have
    \<open>map_sum id script (extractTags_p001 demo_env demo_disk card_path initial_data) =
     Inr (js ''document.querySelectorAll("card").forEach(function(card){card.x = 1})\<newline>'')\<close>
    by (simp add: card_first_script card_text card_trimmed card_name card_script_nonempty
        card_script_fragment)
  moreover from t have
    "map_sum id script (extractTags_sfc demo_env demo_disk card_path initial_data) =
     Inr (js '' card.x = 1 \<newline>'')"
    by (simp add: card_first_script card_text card_script_sfc)
  ultimately show ?thesis
    using read_card by blast
qed

text \<open>
  C1 as stated fails in \<^verbatim>\<open>src/vite-plugin-sfc.js\<close>: the script of \<^verbatim>\<open>blank.html\<close> is
  empty after trimming and a fragment is appended for it; the script of \<^verbatim>\<open>card.html\<close>
  is appended without the selection of the \<^verbatim>\<open>card\<close> elements.
\<close>

theorem script_fragment_counterexample:
  "trim (text_of demo_env blank_script) = [] \<and>
   extractTags_sfc demo_env blank_disk blank_path initial_data =
     Inr \<lparr>script = js ''  \<newline>'', style = [], template = []\<rparr> \<and>
   map_sum id script (extractTags_sfc demo_env demo_disk card_path initial_data) =
     Inr (js '' card.x = 1 \<newline>'')"
proof -
  have "extractTags_sfc demo_env blank_disk blank_path initial_data =
     Inr \<lparr>script = js ''  \<newline>'', style = [], template = []\<rparr>"
    using blank_first_script blank_first_template blank_first_style
    by (simp add: extractTags_sfc_def read_blank appendTags_sfc_def blank_text js_append
        initial_data_def)
  moreover have "map_sum id script (extractTags_sfc demo_env demo_disk card_path initial_data) =
     Inr (js '' card.x = 1 \<newline>'')"
    by (simp add: extractTags_sfc_def read_card script_appendTags_sfc card_first_script card_text
        card_script_sfc)
  ultimately show ?thesis
    by (simp add: blank_text blank_trimmed)
qed

text \<open>
  C8, as amended. In \<^verbatim>\<open>src/unnamed/part_001\<close> the script text that goes into the script
  statement is the text of the first script element without its leading and trailing
  whitespace: the text is whitespace, then the trimmed text, then whitespace, and the
  trimmed text neither starts nor ends with whitespace. In \<^verbatim>\<open>src/vite-plugin-sfc.js\<close>
  the text is appended untrimmed.
\<close>

theorem script_text_trimmed_in_part_001_only:
  assumes "readFileSync fs filepath = Inr file"
    and "querySelector (js ''script'') (parse E file) = Some s"
  shows \<open>map_sum id script (extractTags_p001 E fs filepath d) =
           Inr (script d @
             (if trim (text_of E s) = [] then []
              else js ''document.querySelectorAll("'' @ path_basename filepath (js ''.html'') @
                   js ''").forEach(function('' @ path_basename filepath (js ''.html'') @
                   js ''){'' @ trim (text_of E s) @ js ''})\<newline>'')) \<and>
         text_of E s =
           takeWhile isWhiteSpace (text_of E s) @ trim (text_of E s) @
           rev (takeWhile isWhiteSpace (rev (dropWhile isWhiteSpace (text_of E s)))) \<and>
         (trim (text_of E s) \<noteq> [] \<longrightarrow>
            \<not> isWhiteSpace (hd (trim (text_of E s))) \<and> \<not> isWhiteSpace (last (trim (text_of E s)))) \<and>
         map_sum id script (extractTags_sfc E fs filepath d) =
           Inr (script d @ text_of E s @ js ''\<newline>'')\<close>
proof -
  have "map_sum id script (extractTags_p001 E fs filepath d) =
           Inr (script d @
             (if trim (text_of E s) = [] then []
              else js ''document.querySelectorAll(\"'' @ path_basename filepath (js ''.html'') @
                   js ''\").forEach(function('' @ path_basename filepath (js ''.html'') @
                   js ''){'' @ trim (text_of E s) @ js ''})\<newline>''))"
    using assms by (simp add: extractTags_p001_def script_appendTags_p001)
  moreover have "map_sum id script (extractTags_sfc E fs filepath d) =
           Inr (script d @ text_of E s @ js ''\<newline>'')"
    using assms by (simp add: extractTags_sfc_def script_appendTags_sfc)
  ultimately show ?thesis
    using trim_decomp[of "text_of E s"] trim_hd[of "text_of E s"] trim_last[of "text_of E s"]
    by blast
qed

theorem script_text_trimmed_in_part_001_only_witness:
  \<open>readFileSync demo_disk card_path = Inr card_html \<and>
   querySelector (js ''script'') (parse demo_env card_html) = Some card_script \<and>
   text_of demo_env card_script = js '' card.x = 1 '' \<and>
   trim (text_of demo_env card_script) = js ''card.x = 1'' \<and>
   map_sum id script (extractTags_p001 demo_env demo_disk card_path initial_data) =
     Inr (js ''document.querySelectorAll("card").forEach(function(card){card.x = 1})\<newline>'') \<and>
   \<not> isWhiteSpace (hd (js ''card.x = 1'')) \<and> \<not> isWhiteSpace (last (js ''card.x = 1''))\<close>
proof -
  note t = script_text_trimmed_in_part_001_only [OF read_card card_first_script, of initial_data]
  from t have
    \<open>map_sum id script (extractTags_p001 demo_env demo_disk card_path initial_data) =
     Inr (js ''document.querySelectorAll("card").forEach(function(card){card.x = 1})\<newline>'')\<close>
    by (simp add: card_text card_trimmed card_name card_script_nonempty card_script_fragment)
  moreover from t have
    "\<not> isWhiteSpace (hd (js ''card.x = 1'')) \<and> \<not> isWhiteSpace (last (js ''card.x = 1''))"
    by (simp add: card_text card_trimmed card_script_nonempty)
  ultimately show ?thesis
    using read_card card_first_script by (simp add: card_text card_trimmed)
qed

text \<open>
  C8 as stated fails in \<^verbatim>\<open>src/vite-plugin-sfc.js\<close>: for \<^verbatim>\<open>card.html\<close> the script
  aggregate receives the text with the spaces around it.
\<close>

theorem script_text_trimmed_counterexample:
  "map_sum id script (extractTags_sfc demo_env demo_disk card_path initial_data) =
     Inr (text_of demo_env card_script @ js ''\<newline>'') \<and>
   text_of demo_env card_script \<noteq> trim (text_of demo_env card_script)"
proof -
  have "map_sum id script (extractTags_sfc demo_env demo_disk card_path initial_data) =
     Inr (text_of demo_env card_script @ js ''\<newline>'')"
    by (simp add: extractTags_sfc_def read_card script_appendTags_sfc card_first_script
        initial_data_def)
  moreover have "text_of demo_env card_script \<noteq> trim (text_of demo_env card_script)"
    by (simp add: card_text card_trimmed) (simp add: js_def)
  ultimately show ?thesis
    by blast
qed


section \<open>The output artifacts\<close>

lemma css_path_neq_js_path [simp]:
  "path_join a (js ''app.min.css'') \<noteq> path_join a (js ''app.min.js'')"
  "path_join a (js ''app.min.js'') \<noteq> path_join a (js ''app.min.css'')"
  by (simp_all add: path_join_def js_def)

lemma artifact_path_neq_dir [simp]:
  "path_join a (js ''app.min.css'') \<noteq> a"
  "path_join a (js ''app.min.js'') \<noteq> a"
  by (simp_all add: path_join_def js_def)

lemma css_after_writeDevFiles_sfc:
  "fst (writeDevFiles_sfc E a d dev fs) (path_join a (js ''app.min.css'')) =
     (if style d = [] then fs (path_join a (js ''app.min.css''))
      else Some (File (cleanCSS E (style d))))"
  by (simp add: writeDevFiles_sfc_def Let_def truthy_def writeFileSync_def split: option.split)

lemma css_after_writeDevFiles_p001:
  "fst (writeDevFiles_p001 E a d fs) (path_join a (js ''app.min.css'')) =
     (if style d = [] then fs (path_join a (js ''app.min.css''))
      else Some (File (cleanCSS E (style d))))"
  by (simp add: writeDevFiles_p001_def Let_def truthy_def writeFileSync_def split: option.split)

lemma css_after_writeBundle_sfc:
  "disk (fst (writeBundle_sfc E dir s)) (path_join (path_join (outDir dir) (js ''assets'')) (js ''app.min.css'')) =
     (if style (data s) = []
      then disk s (path_join (path_join (outDir dir) (js ''assets'')) (js ''app.min.css''))
      else Some (File (cleanCSS E (style (data s)))))"
  by (simp add: writeBundle_sfc_def Let_def truthy_def writeFileSync_def mkdirSync_def
      split: option.split)

lemma css_after_writeBundle_p001:
  "disk (fst (writeBundle_p001 E dir s)) (path_join (path_join (outDir dir) (js ''assets'')) (js ''app.min.css'')) =
     (if style (data s) = []
      then disk s (path_join (path_join (outDir dir) (js ''assets'')) (js ''app.min.css''))
      else Some (File (cleanCSS E (style (data s)))))"
  by (simp add: writeBundle_p001_def Let_def truthy_def writeFileSync_def mkdirSync_def
      split: option.split)

lemma js_after_writeDevFiles_sfc:
  "fst (writeDevFiles_sfc E a d dev fs) (path_join a (js ''app.min.js'')) =
     (if dev then Some (File (template d @ js '' '' @ script d))
      else case minify E (template d @ js '' '' @ script d) True of
             None \<Rightarrow> fs (path_join a (js ''app.min.js''))
           | Some code \<Rightarrow> Some (File code))"
  "snd (writeDevFiles_sfc E a d dev fs) =
     (if dev then None
      else case minify E (template d @ js '' '' @ script d) True of
             None \<Rightarrow> Some (MinifyError (template d @ js '' '' @ script d))
           | Some code \<Rightarrow> None)"
  by (simp_all add: writeDevFiles_sfc_def Let_def truthy_def writeFileSync_def split: option.split)

lemma js_after_writeDevFiles_p001:
  "fst (writeDevFiles_p001 E a d fs) (path_join a (js ''app.min.js'')) =
     (case minify E (template d @ js '' '' @ script d) False of
        None \<Rightarrow> fs (path_join a (js ''app.min.js''))
      | Some code \<Rightarrow> Some (File code))"
  "snd (writeDevFiles_p001 E a d fs) =
     (case minify E (template d @ js '' '' @ script d) False of
        None \<Rightarrow> Some (MinifyError (template d @ js '' '' @ script d))
      | Some code \<Rightarrow> None)"
  by (simp_all add: writeDevFiles_p001_def Let_def truthy_def writeFileSync_def split: option.split)

lemma js_after_writeBundle_sfc:
  "disk (fst (writeBundle_sfc E dir s)) (path_join (path_join (outDir dir) (js ''assets'')) (js ''app.min.js'')) =
     (case minify E (template (data s) @ js '' '' @ script (data s)) True of
        None \<Rightarrow> disk s (path_join (path_join (outDir dir) (js ''assets'')) (js ''app.min.js''))
      | Some code \<Rightarrow> Some (File code))"
  "snd (writeBundle_sfc E dir s) =
     (case minify E (template (data s) @ js '' '' @ script (data s)) True of
        None \<Rightarrow> Some (MinifyError (template (data s) @ js '' '' @ script (data s)))
      | Some code \<Rightarrow> None)"
  by (simp_all add: writeBundle_sfc_def Let_def truthy_def writeFileSync_def mkdirSync_def
      split: option.split)

lemma js_after_writeBundle_p001:
  "disk (fst (writeBundle_p001 E dir s)) (path_join (path_join (outDir dir) (js ''assets'')) (js ''app.min.js'')) =
     (case minify E (template (data s) @ js '' '' @ script (data s)) False of
        None \<Rightarrow> disk s (path_join (path_join (outDir dir) (js ''assets'')) (js ''app.min.js''))
      | Some code \<Rightarrow> Some (File code))"
  "snd (writeBundle_p001 E dir s) =
     (case minify E (template (data s) @ js '' '' @ script (data s)) False of
        None \<Rightarrow> Some (MinifyError (template (data s) @ js '' '' @ script (data s)))
      | Some code \<Rightarrow> None)"
  by (simp_all add: writeBundle_p001_def Let_def truthy_def writeFileSync_def mkdirSync_def
      split: option.split)

lemma minify_demo: "minify demo_env c m = Some c"
  by (simp add: demo_env_def)

lemma cleanCSS_demo: "cleanCSS demo_env c = c"
  by (simp add: demo_env_def)

lemma data_sfcPlugin: "data (sfcPlugin fs) = initial_data"
  by (simp add: sfcPlugin_def)

lemma combined_initial: "template initial_data @ js '' '' @ script initial_data = js '' ''"
  by (simp add: initial_data_def)

lemma style_initial: "style initial_data = []"
  by (simp add: initial_data_def)

lemma style_card_nonempty: "js ''p{}'' \<noteq> []"
  by (simp add: js_def)

text \<open>
  C3. In \<^verbatim>\<open>writeBundle\<close> and \<^verbatim>\<open>writeDevFiles\<close> of both files, the script text is
  \<open>template\<close>, one space, \<open>script\<close>, whatever the aggregates hold; for empty aggregates it is
  one space. The write of \<^verbatim>\<open>app.min.js\<close> does not depend on the aggregates: the
  development writer of \<^verbatim>\<open>src/vite-plugin-sfc.js\<close> writes this text as it is, and the
  other writers write what the minifier returns for it; where the minifier rejects the
  text, the rejection is the result and the artifact is left as it was.
\<close>

theorem script_artifact_is_template_space_script:
  "fst (writeDevFiles_sfc E a d dev fs) (path_join a (js ''app.min.js'')) =
     (if dev then Some (File (template d @ js '' '' @ script d))
      else case minify E (template d @ js '' '' @ script d) True of
             None \<Rightarrow> fs (path_join a (js ''app.min.js''))
           | Some code \<Rightarrow> Some (File code)) \<and>
   snd (writeDevFiles_sfc E a d dev fs) =
     (if dev then None
      else case minify E (template d @ js '' '' @ script d) True of
             None \<Rightarrow> Some (MinifyError (template d @ js '' '' @ script d))
           | Some code \<Rightarrow> None) \<and>
   fst (writeDevFiles_p001 E a d fs) (path_join a (js ''app.min.js'')) =
     (case minify E (template d @ js '' '' @ script d) False of
        None \<Rightarrow> fs (path_join a (js ''app.min.js''))
      | Some code \<Rightarrow> Some (File code)) \<and>
   snd (writeDevFiles_p001 E a d fs) =
     (case minify E (template d @ js '' '' @ script d) False of
        None \<Rightarrow> Some (MinifyError (template d @ js '' '' @ script d))
      | Some code \<Rightarrow> None) \<and>
   disk (fst (writeBundle_sfc E dir s)) (path_join (path_join (outDir dir) (js ''assets'')) (js ''app.min.js'')) =
     (case minify E (template (data s) @ js '' '' @ script (data s)) True of
        None \<Rightarrow> disk s (path_join (path_join (outDir dir) (js ''assets'')) (js ''app.min.js''))
      | Some code \<Rightarrow> Some (File code)) \<and>
   snd (writeBundle_sfc E dir s) =
     (case minify E (template (data s) @ js '' '' @ script (data s)) True of
        None \<Rightarrow> Some (MinifyError (template (data s) @ js '' '' @ script (data s)))
      | Some code \<Rightarrow> None) \<and>
   disk (fst (writeBundle_p001 E dir s)) (path_join (path_join (outDir dir) (js ''assets'')) (js ''app.min.js'')) =
     (case minify E (template (data s) @ js '' '' @ script (data s)) False of
        None \<Rightarrow> disk s (path_join (path_join (outDir dir) (js ''assets'')) (js ''app.min.js''))
      | Some code \<Rightarrow> Some (File code)) \<and>
   snd (writeBundle_p001 E dir s) =
     (case minify E (template (data s) @ js '' '' @ script (data s)) False of
        None \<Rightarrow> Some (MinifyError (template (data s) @ js '' '' @ script (data s)))
      | Some code \<Rightarrow> None) \<and>
   template initial_data @ js '' '' @ script initial_data = js '' ''"
  using js_after_writeDevFiles_sfc[of E a d dev fs] js_after_writeDevFiles_p001[of E a d fs]
    js_after_writeBundle_sfc[of E dir s] js_after_writeBundle_p001[of E dir s]
  by (simp add: initial_data_def)

theorem script_artifact_is_template_space_script_witness:
  "fst (writeDevFiles_sfc demo_env (devAssetsDir demo_env) initial_data True Map.empty)
     (path_join (devAssetsDir demo_env) (js ''app.min.js'')) = Some (File (js '' '')) \<and>
   fst (writeDevFiles_p001 demo_env (devAssetsDir demo_env) initial_data Map.empty)
     (path_join (devAssetsDir demo_env) (js ''app.min.js'')) = Some (File (js '' '')) \<and>
   disk (fst (writeBundle_sfc demo_env None (sfcPlugin Map.empty)))
     (path_join (path_join (outDir None) (js ''assets'')) (js ''app.min.js'')) = Some (File (js '' '')) \<and>
   disk (fst (writeBundle_p001 demo_env None (sfcPlugin Map.empty)))
     (path_join (path_join (outDir None) (js ''assets'')) (js ''app.min.js'')) = Some (File (js '' ''))"
  using script_artifact_is_template_space_script
          [of demo_env "devAssetsDir demo_env" initial_data True Map.empty None "sfcPlugin Map.empty"]
  by (simp add: minify_demo data_sfcPlugin combined_initial)

text \<open>
  C7. In \<^verbatim>\<open>writeBundle\<close> and \<^verbatim>\<open>writeDevFiles\<close> of both files, \<^verbatim>\<open>app.min.css\<close> holds
  the minified style aggregate afterwards when the aggregate is not empty, and what it
  held before (nothing, if it did not exist) when the aggregate is empty.
\<close>

theorem style_artifact_written_only_when_nonempty:
  "fst (writeDevFiles_sfc E a d dev fs) (path_join a (js ''app.min.css'')) =
     (if style d = [] then fs (path_join a (js ''app.min.css''))
      else Some (File (cleanCSS E (style d)))) \<and>
   fst (writeDevFiles_p001 E a d fs) (path_join a (js ''app.min.css'')) =
     (if style d = [] then fs (path_join a (js ''app.min.css''))
      else Some (File (cleanCSS E (style d)))) \<and>
   disk (fst (writeBundle_sfc E dir s)) (path_join (path_join (outDir dir) (js ''assets'')) (js ''app.min.css'')) =
     (if style (data s) = []
      then disk s (path_join (path_join (outDir dir) (js ''assets'')) (js ''app.min.css''))
      else Some (File (cleanCSS E (style (data s))))) \<and>
   disk (fst (writeBundle_p001 E dir s)) (path_join (path_join (outDir dir) (js ''assets'')) (js ''app.min.css'')) =
     (if style (data s) = []
      then disk s (path_join (path_join (outDir dir) (js ''assets'')) (js ''app.min.css''))
      else Some (File (cleanCSS E (style (data s)))))"
  using css_after_writeDevFiles_sfc css_after_writeDevFiles_p001 css_after_writeBundle_sfc
    css_after_writeBundle_p001 by blast

theorem style_artifact_written_only_when_nonempty_witness:
  "fst (writeDevFiles_sfc demo_env (js ''/app/public/assets'') initial_data True
          [js ''/app/public/assets/app.min.css'' \<mapsto> File (js ''old'')])
     (js ''/app/public/assets/app.min.css'') = Some (File (js ''old'')) \<and>
   fst (writeDevFiles_p001 demo_env (js ''/app/public/assets'') initial_data Map.empty)
     (js ''/app/public/assets/app.min.css'') = None \<and>
   fst (writeDevFiles_p001 demo_env (js ''/app/public/assets'')
          \<lparr>script = [], style = js ''p{}'', template = []\<rparr>
          [js ''/app/public/assets/app.min.css'' \<mapsto> File (js ''old'')])
     (js ''/app/public/assets/app.min.css'') = Some (File (js ''p{}''))"
proof -
  have p: "path_join (js ''/app/public/assets'') (js ''app.min.css'') = js ''/app/public/assets/app.min.css''"
    by (simp add: path_join_def js_def)
  have "fst (writeDevFiles_sfc demo_env (js ''/app/public/assets'') initial_data True
          [js ''/app/public/assets/app.min.css'' \<mapsto> File (js ''old'')])
     (js ''/app/public/assets/app.min.css'') = Some (File (js ''old''))"
    using style_artifact_written_only_when_nonempty
            [of demo_env "js ''/app/public/assets''" initial_data True
                "[js ''/app/public/assets/app.min.css'' \<mapsto> File (js ''old'')]" None "sfcPlugin Map.empty"]
    unfolding p by (simp add: style_initial)
  moreover have "fst (writeDevFiles_p001 demo_env (js ''/app/public/assets'') initial_data Map.empty)
     (js ''/app/public/assets/app.min.css'') = None"
    using style_artifact_written_only_when_nonempty
            [of demo_env "js ''/app/public/assets''" initial_data True Map.empty None "sfcPlugin Map.empty"]
    unfolding p by (simp add: style_initial)
  moreover have "fst (writeDevFiles_p001 demo_env (js ''/app/public/assets'')
          \<lparr>script = [], style = js ''p{}'', template = []\<rparr>
          [js ''/app/public/assets/app.min.css'' \<mapsto> File (js ''old'')])
     (js ''/app/public/assets/app.min.css'') = Some (File (js ''p{}''))"
    using style_artifact_written_only_when_nonempty
            [of demo_env "js ''/app/public/assets''" "\<lparr>script = [], style = js ''p{}'', template = []\<rparr>" True
                "[js ''/app/public/assets/app.min.css'' \<mapsto> File (js ''old'')]" None "sfcPlugin Map.empty"]
    unfolding p by (simp add: style_card_nonempty cleanCSS_demo)
  ultimately show ?thesis
    by blast
qed


section \<open>A missing component directory\<close>

lemma componentsDir_neq [simp]:
  "componentsDir E \<noteq> publicDir E"
  "componentsDir E \<noteq> devAssetsDir E"
  "componentsDir E \<noteq> publicIndex E"
  "componentsDir E \<noteq> path_join (devAssetsDir E) (js ''app.min.css'')"
  "componentsDir E \<noteq> path_join (devAssetsDir E) (js ''app.min.js'')"
  "publicDir E \<noteq> componentsDir E"
  "devAssetsDir E \<noteq> componentsDir E"
  "publicIndex E \<noteq> componentsDir E"
  "path_join (devAssetsDir E) (js ''app.min.css'') \<noteq> componentsDir E"
  "path_join (devAssetsDir E) (js ''app.min.js'') \<noteq> componentsDir E"
  by (simp_all add: componentsDir_def publicDir_def devAssetsDir_def publicIndex_def
      path_join_def path_resolve_def js_def)

lemma srcIndex_neq [simp]:
  "srcIndex E \<noteq> publicDir E"
  "srcIndex E \<noteq> devAssetsDir E"
  "publicDir E \<noteq> srcIndex E"
  "devAssetsDir E \<noteq> srcIndex E"
  by (simp_all add: srcIndex_def publicDir_def devAssetsDir_def path_join_def path_resolve_def js_def)

lemma component_file_neq [simp]:
  "path_join (componentsDir E) f \<noteq> path_join (devAssetsDir E) (js ''app.min.css'')"
  "path_join (componentsDir E) f \<noteq> path_join (devAssetsDir E) (js ''app.min.js'')"
  "path_join (devAssetsDir E) (js ''app.min.css'') \<noteq> path_join (componentsDir E) f"
  "path_join (devAssetsDir E) (js ''app.min.js'') \<noteq> path_join (componentsDir E) f"
  by (simp_all add: componentsDir_def devAssetsDir_def publicDir_def path_join_def path_resolve_def js_def)




lemma logRejection_fields [simp]:
  "disk (logRejection s r) = fst r"
  "data (logRejection s r) = data s"
  "isDev (logRejection s r) = isDev s"
  "onChangeRegistered (logRejection s r) = onChangeRegistered s"
  "watched (logRejection s r) = watched s"
  "reloads (logRejection s r) = reloads s"
  by (simp_all add: logRejection_def split: option.split)




lemma disk_sfcPlugin: "disk (sfcPlugin fs) = fs"
  by (simp add: sfcPlugin_def)





section \<open>Rebuilds\<close>













lemma card_path_is_component:
  "includesStr card_path (js ''/components/'') \<and> endsWith card_path (js ''.html'')"
  by (simp add: includesStr_def endsWith_def card_path_def js_def suffix_to_prefix sublist_code)

lemma demo_dirs:
  "componentsDir demo_env = js ''/app/src/components''"
  "devAssetsDir demo_env = js ''/app/public/assets''"
  by (simp_all add: componentsDir_def devAssetsDir_def publicDir_def path_resolve_def path_join_def
      demo_env_def js_def)

lemma demo_listing: "readdirSync demo_disk (js ''/app/src/components'') = Inr [js ''card.html'', js ''notes.txt'']"
  by (simp add: readdirSync_def demo_disk_def js_def)

lemma demo_exists: "existsSync demo_disk (js ''/app/src/components'')"
  by (simp add: existsSync_def demo_disk_def js_def)

lemma demo_htmlFiles: "htmlFiles [js ''card.html'', js ''notes.txt''] = [js ''card.html'']"
  by (simp add: htmlFiles_def endsWith_def suffix_to_prefix js_def)

lemma demo_card_path: "path_join (js ''/app/src/components'') (js ''card.html'') = card_path"
  by (simp add: path_join_def card_path_def js_def)

lemma card_style_text: "text_of demo_env card_style = js ''p{}''"
  by (simp add: text_of_demo card_style_def)

lemma extract_card_p001:
  "extractTags_p001 demo_env demo_disk card_path d =
     Inr \<lparr>script = script d @ card_script_statement, style = style d @ js ''p{}'',
          template = template d @ card_template_statement\<rparr>"
  using card_first_template card_first_script card_first_style
  by (cases d)
     (simp add: extractTags_p001_def read_card appendTags_p001_def card_name card_markup card_text
        card_trimmed card_style_text truthy_def card_script_nonempty card_template_statement_def
        card_script_statement_def js_append)

lemma extract_card_sfc:
  "extractTags_sfc demo_env demo_disk card_path d =
     Inr \<lparr>script = script d @ js '' card.x = 1 \<newline>'', style = style d @ js ''p{}'',
          template = template d @ card_template_statement\<rparr>"
  using card_first_template card_first_script card_first_style
  by (cases d)
     (simp add: extractTags_sfc_def read_card appendTags_sfc_def card_name card_markup card_text
        card_style_text card_template_statement_def js_append)

lemma buildStart_p001_demo:
  "disk s = demo_disk \<Longrightarrow>
   buildStart_p001 demo_env s =
     (s\<lparr>data := \<lparr>script = script (data s) @ card_script_statement, style = style (data s) @ js ''p{}'',
          template = template (data s) @ card_template_statement\<rparr>\<rparr>, None)"
  by (simp add: buildStart_p001_def demo_dirs demo_exists demo_listing demo_htmlFiles demo_card_path
      extract_card_p001)

lemma buildStart_sfc_demo:
  "disk s = demo_disk \<Longrightarrow>
   buildStart_sfc demo_env s =
     (s\<lparr>isDev := False, data := \<lparr>script = script (data s) @ js '' card.x = 1 \<newline>'',
          style = style (data s) @ js ''p{}'',
          template = template (data s) @ card_template_statement\<rparr>\<rparr>, None)"
  by (simp add: buildStart_sfc_def demo_dirs demo_exists demo_listing demo_htmlFiles demo_card_path
      extract_card_sfc)

lemma disk_buildStart_demo:
  "disk (fst (buildStart_p001 demo_env (sfcPlugin demo_disk))) = demo_disk"
  "disk (fst (buildStart_sfc demo_env (sfcPlugin demo_disk))) = demo_disk"
  by (simp_all add: buildStart_p001_demo buildStart_sfc_demo disk_sfcPlugin)

lemma onChange_demo_data:
  "disk s = demo_disk \<Longrightarrow>
   data (fst (onChange_p001 demo_env card_path s)) =
     \<lparr>script = card_script_statement, style = js ''p{}'', template = card_template_statement\<rparr>"
  "disk s = demo_disk \<Longrightarrow>
   data (fst (onChange_sfc demo_env card_path s)) =
     \<lparr>script = js '' card.x = 1 \<newline>'', style = js ''p{}'', template = card_template_statement\<rparr>"
  by (simp_all add: onChange_p001_def onChange_sfc_def card_path_is_component demo_dirs demo_listing
      demo_htmlFiles demo_card_path extract_card_p001 extract_card_sfc initial_data_def Let_def)

lemma component_file_neq_index [simp]:
  "path_join (componentsDir E) f \<noteq> publicIndex E"
  "publicIndex E \<noteq> path_join (componentsDir E) f"
  by (simp_all add: componentsDir_def publicIndex_def publicDir_def path_join_def path_resolve_def js_def)

lemma index_neq_artifacts [simp]:
  "publicIndex E \<noteq> path_join (devAssetsDir E) (js ''app.min.css'')"
  "publicIndex E \<noteq> path_join (devAssetsDir E) (js ''app.min.js'')"
  by (simp_all add: devAssetsDir_def publicIndex_def publicDir_def path_join_def path_resolve_def js_def)










text \<open>
  C4 fails for \<^verbatim>\<open>buildStart\<close>, which appends to the aggregates as they are, unlike the
  change handler, which empties them first. In the sample project the first
  \<^verbatim>\<open>buildStart\<close> on a new plugin instance leaves the statements of \<^verbatim>\<open>card.html\<close> once,
  a second one leaves each of them twice (in both variants), and a run of the change
  handler after a \<^verbatim>\<open>buildStart\<close> leaves them once.
\<close>

theorem buildStart_twice_appends_twice:
  "data (fst (buildStart_p001 demo_env (sfcPlugin demo_disk))) =
     \<lparr>script = card_script_statement, style = js ''p{}'', template = card_template_statement\<rparr> \<and>
   data (fst (buildStart_p001 demo_env (fst (buildStart_p001 demo_env (sfcPlugin demo_disk))))) =
     \<lparr>script = card_script_statement @ card_script_statement, style = js ''p{}p{}'',
      template = card_template_statement @ card_template_statement\<rparr> \<and>
   data (fst (buildStart_sfc demo_env (fst (buildStart_sfc demo_env (sfcPlugin demo_disk))))) =
     \<lparr>script = js '' card.x = 1 \<newline> card.x = 1 \<newline>'', style = js ''p{}p{}'',
      template = card_template_statement @ card_template_statement\<rparr> \<and>
   data (fst (onChange_p001 demo_env card_path (fst (buildStart_p001 demo_env (sfcPlugin demo_disk))))) =
     \<lparr>script = card_script_statement, style = js ''p{}'', template = card_template_statement\<rparr>"
proof -
  have one: "data (fst (buildStart_p001 demo_env (sfcPlugin demo_disk))) =
     \<lparr>script = card_script_statement, style = js ''p{}'', template = card_template_statement\<rparr>"
    by (simp add: buildStart_p001_demo disk_sfcPlugin data_sfcPlugin initial_data_def)
  have two: "data (fst (buildStart_p001 demo_env (fst (buildStart_p001 demo_env (sfcPlugin demo_disk))))) =
     \<lparr>script = card_script_statement @ card_script_statement, style = js ''p{}p{}'',
      template = card_template_statement @ card_template_statement\<rparr>"
    by (simp add: buildStart_p001_demo disk_buildStart_demo one js_append)
  have one': "data (fst (buildStart_sfc demo_env (sfcPlugin demo_disk))) =
     \<lparr>script = js '' card.x = 1 \<newline>'', style = js ''p{}'', template = card_template_statement\<rparr>"
    by (simp add: buildStart_sfc_demo disk_sfcPlugin data_sfcPlugin initial_data_def)
  have two': "data (fst (buildStart_sfc demo_env (fst (buildStart_sfc demo_env (sfcPlugin demo_disk))))) =
     \<lparr>script = js '' card.x = 1 \<newline> card.x = 1 \<newline>'', style = js ''p{}p{}'',
      template = card_template_statement @ card_template_statement\<rparr>"
    by (simp add: buildStart_sfc_demo disk_buildStart_demo one' js_append)
  show ?thesis
    using one two two' onChange_demo_data(1)[OF disk_buildStart_demo(1)] by blast
qed


section \<open>Several elements of one kind\<close>
















end
